theory Spec2Isabelle
  imports Main
begin

section \<open>Data of the Notion client as the exporter reads it\<close>

text \<open>
  The exporter (package \<open>export\<close>) reads pages and blocks through the client library
  \<open>github.com/jomei/notionapi\<close>, whose type declarations are not part of the repository.

  Modelled from the spec: the styled text run \<open>na.RichText\<close> ("plain text content plus an
  optional hyperlink target and a set of mutually-independent style flags"). The fields are
  the ones the exporter selects: \<open>t.Text.Content\<close>, \<open>t.PlainText\<close>, \<open>t.Href\<close> and the four
  flags of \<open>t.Annotations\<close>. An absent hyperlink is the empty string, as in Go.
\<close>

record RichText =
  Content :: string
  PlainText :: string
  Href :: string
  Bold :: bool
  Italic :: bool
  Strikethrough :: bool
  Code :: bool

text \<open>
  Modelled from the spec: the header flags of a table (\<open>TableBlock.Table\<close>) and the two
  optional sources of an image (\<open>ImageBlock.Image.External\<close>, \<open>ImageBlock.Image.File\<close>,
  each a pointer to a record holding a URL; \<open>None\<close> is the nil pointer).
\<close>

record Table =
  HasRowHeader :: bool
  HasColumnHeader :: bool

record Image =
  External :: "string option"
  File :: "string option"

text \<open>
  Modelled from the spec: a block is a tagged variant. \<open>renderBlocks\<close> switches on
  \<open>b.GetType()\<close> and then asserts the matching Go type; the datatype has one constructor
  per asserted type, carrying the fields the exporter reads, and a catch-all that keeps
  the type string of any other block.
\<close>

datatype BlockData =
    Heading1Block "RichText list"
  | Heading2Block "RichText list"
  | Heading3Block "RichText list"
  | ParagraphBlock "RichText list"
  | BulletedListItemBlock "RichText list"
  | NumberedListItemBlock "RichText list"
  | ToDoBlock "RichText list" bool
  | DividerBlock
  | CodeBlock "RichText list" string
  | TableBlock Table
  | TableRowBlock "RichText list list"
  | QuoteBlock "RichText list"
  | CalloutBlock "RichText list"
  | ImageBlock Image
  | OtherBlock string

record NBlock =
  ID :: string
  HasChildren :: bool
  Data :: BlockData

fun typeOfData :: "BlockData \<Rightarrow> string" where
  "typeOfData (Heading1Block _) = ''heading_1''"
| "typeOfData (Heading2Block _) = ''heading_2''"
| "typeOfData (Heading3Block _) = ''heading_3''"
| "typeOfData (ParagraphBlock _) = ''paragraph''"
| "typeOfData (BulletedListItemBlock _) = ''bulleted_list_item''"
| "typeOfData (NumberedListItemBlock _) = ''numbered_list_item''"
| "typeOfData (ToDoBlock _ _) = ''to_do''"
| "typeOfData DividerBlock = ''divider''"
| "typeOfData (CodeBlock _ _) = ''code''"
| "typeOfData (TableBlock _) = ''table''"
| "typeOfData (TableRowBlock _) = ''table_row''"
| "typeOfData (QuoteBlock _) = ''quote''"
| "typeOfData (CalloutBlock _) = ''callout''"
| "typeOfData (ImageBlock _) = ''image''"
| "typeOfData (OtherBlock t) = t"

definition GetType :: "NBlock \<Rightarrow> string" where
  "GetType b = typeOfData (Data b)"

definition GetHasChildren :: "NBlock \<Rightarrow> bool" where
  "GetHasChildren b = HasChildren b"

definition GetID :: "NBlock \<Rightarrow> string" where
  "GetID b = ID b"

text \<open>
  Modelled from the spec: a page holds a property set (a Go map, iterated in an order the
  language leaves open; the association list fixes one iteration order). A property is the
  title property with its rich text, or any other property, of which only the type string
  is read.
\<close>

datatype Property =
    TitleProperty "RichText list"
  | OtherProperty string

fun propertyType :: "Property \<Rightarrow> string" where
  "propertyType (TitleProperty _) = ''title''"
| "propertyType (OtherProperty t) = t"

record Page =
  Properties :: "(string \<times> Property) list"

section \<open>Errors and panics\<close>

text \<open>
  A Go function of the exporter ends in one of three ways: it returns a value, it returns
  an error, or it panics (nil pointer dereference, index out of range, failed type
  assertion). A returned error
  can be dropped by the caller; a panic cannot, so the two are kept apart.
\<close>

datatype panic = NilDereference | IndexOutOfRange | TypeAssertion

datatype error =
    ClientError string
  | FailedGettingPage string error
  | FailedRenderingPage error
  | FailedRetrievePage error
  | FailedRetrieveData error
  | NotAnImageBlock string
  | InvalidImagePath string
  | Non200Status int
  | SysError string

datatype 'a res = Value 'a | Err error | Panic panic

section \<open>Render options (config file of package export)\<close>

record ImageSaveOptions =
  SavePath :: string
  IgnoreImages :: bool
  OverwriteExisting :: bool

record tableState =
  tableBlock :: "Table option"
  rowQuantity :: int
  currentRow :: int

record tableCell =
  rowTxt :: string
  isRowHeader :: bool
  isColumnHeader :: bool
  tableRef :: tableState

text \<open>
  \<open>RenderOptions\<close> holds the settings and the override functions. An override receives a
  \<open>Block\<close>, and a \<open>Block\<close> holds the options again (\<open>Opts\<close>); HOL has no type that
  contains functions over itself, so the options a \<open>Block\<close> carries are the settings of
  \<open>RenderOptions\<close> without the override functions (\<open>RenderSettings\<close>), and
  \<open>RenderOptions\<close> extends them with \<open>Overrides\<close>. The Go type \<open>int\<close> of \<open>depth\<close> is
  \<open>int\<close>: the depth starts at 0 and grows by one per nesting level of the recursion, far
  from the machine bound.
\<close>

record RenderSettings =
  ImageOpts :: ImageSaveOptions
  SkipEmptyParagraphs :: bool
  tableState :: tableState
  previousElementType :: string
  depth :: int

record Block =
  Text :: string
  BlockRef :: NBlock
  Opts :: "RenderSettings list"
  Depth :: int
  PageRef :: "Page option"

type_synonym headerFooterOverride = "Page \<Rightarrow> string"
type_synonym blockOverride = "Block \<Rightarrow> string"
type_synonym imageOverride = "Block \<Rightarrow> error + string"
type_synonym rowOverride = "tableCell list \<Rightarrow> string"
type_synonym richTextOverride = "RichText list \<Rightarrow> string"
type_synonym seperationOverride = "string \<Rightarrow> string \<Rightarrow> string"

text \<open>
  A nil function value is \<open>None\<close>. \<open>Render\<close> reads \<open>Overrides.PageHeader\<close> and
  \<open>Overrides.PageFooter\<close>, and \<open>RenderImage\<close> takes an \<open>imageOverride\<close> returning a
  string and an error; the three are taken as the callers use them.
\<close>

record OverrideOptions =
  Header1 :: "blockOverride option"
  Header2 :: "blockOverride option"
  Header3 :: "blockOverride option"
  Paragraph :: "blockOverride option"
  BulletedList :: "blockOverride option"
  NumberedList :: "blockOverride option"
  Divider :: "blockOverride option"
  CodeO :: "blockOverride option"
  Todo :: "blockOverride option"
  Quote :: "blockOverride option"
  Callout :: "blockOverride option"
  ImageO :: "imageOverride option"
  Padding :: "blockOverride option"
  Row :: "rowOverride option"
  PageHeader :: "headerFooterOverride option"
  PageFooter :: "headerFooterOverride option"

record RenderOptions = RenderSettings +
  Overrides :: OverrideOptions

text \<open>
  A variadic override parameter \<open>o ...T\<close> is a list; the renderer uses the first element
  when there is one and it is not nil (\<open>len(o) > 0 && o[0] != nil\<close>).
\<close>

fun firstOverride :: "'a option list \<Rightarrow> 'a option" where
  "firstOverride [] = None"
| "firstOverride (x # _) = x"

section \<open>The Markdown renderer\<close>

subsection \<open>Text\<close>

text \<open>
  \<open>fmt.Sprintf\<close> with a constant pattern of \<open>%s\<close> verbs and string operands is the
  pattern with the operands put in. The plain case calls \<open>fmt.Sprintf(t.Text.Content)\<close>:
  the content is the format and there is no operand, so what Go prints for a content
  holding a percent sign is decided by package \<open>fmt\<close>; that function is the parameter
  \<open>sprintf0\<close>.
\<close>

definition mdLink :: "string \<Rightarrow> string \<Rightarrow> string" where
  "mdLink s h = ''['' @ s @ '']('' @ h @ '')''"

definition mdBold :: "string \<Rightarrow> string" where
  "mdBold s = ''**'' @ s @ ''**''"

definition mdItalic :: "string \<Rightarrow> string" where
  "mdItalic s = ''_'' @ s @ ''_''"

definition mdStrikeThrough :: "string \<Rightarrow> string" where
  "mdStrikeThrough s = ''~'' @ s @ ''~''"

definition mdInlineCode :: "string \<Rightarrow> string" where
  "mdInlineCode s = ''`'' @ s @ ''`''"

fun RenderText_loop :: "(string \<Rightarrow> string) \<Rightarrow> string \<Rightarrow> RichText list \<Rightarrow> string" where
  "RenderText_loop sprintf0 parsed [] = parsed"
| "RenderText_loop sprintf0 parsed (t # ts) =
     RenderText_loop sprintf0
       (if Href t \<noteq> '''' then parsed @ mdLink (Content t) (Href t)
        else if Bold t then parsed @ mdBold (Content t)
        else if Italic t then parsed @ mdItalic (Content t)
        else if Strikethrough t then parsed @ mdStrikeThrough (Content t)
        else if Code t then parsed @ mdInlineCode (Content t)
        else parsed @ sprintf0 (Content t))
       ts"

definition RenderText ::
  "(string \<Rightarrow> string) \<Rightarrow> RichText list \<Rightarrow> richTextOverride option list \<Rightarrow> string" where
  "RenderText sprintf0 rt ov =
     (case firstOverride ov of
        Some f \<Rightarrow> f rt
      | None \<Rightarrow> RenderText_loop sprintf0 '''' rt)"

text \<open>
  The precedence as the specification words it: every representation whose condition the
  run meets is a candidate, the candidates are ranked hyperlink, bold, italic,
  strikethrough, inline code, and the plain form is the last resort.
\<close>

datatype representation = Hyperlink | BoldForm | ItalicForm | StrikeForm | InlineCodeForm | PlainForm

definition candidates :: "RichText \<Rightarrow> representation list" where
  "candidates t =
     (if Href t \<noteq> '''' then [Hyperlink] else []) @
     (if Bold t then [BoldForm] else []) @
     (if Italic t then [ItalicForm] else []) @
     (if Strikethrough t then [StrikeForm] else []) @
     (if Code t then [InlineCodeForm] else []) @ [PlainForm]"

definition chosen :: "RichText \<Rightarrow> representation" where
  "chosen t = hd (candidates t)"

fun form :: "(string \<Rightarrow> string) \<Rightarrow> representation \<Rightarrow> RichText \<Rightarrow> string" where
  "form sprintf0 Hyperlink t = mdLink (Content t) (Href t)"
| "form sprintf0 BoldForm t = mdBold (Content t)"
| "form sprintf0 ItalicForm t = mdItalic (Content t)"
| "form sprintf0 StrikeForm t = mdStrikeThrough (Content t)"
| "form sprintf0 InlineCodeForm t = mdInlineCode (Content t)"
| "form sprintf0 PlainForm t = sprintf0 (Content t)"

subsection \<open>Blocks\<close>

definition RenderPageHeader1 :: "Block \<Rightarrow> blockOverride option list \<Rightarrow> string" where
  "RenderPageHeader1 b ov =
     (case firstOverride ov of Some f \<Rightarrow> f b | None \<Rightarrow> ''# '' @ Text b)"

definition RenderPageHeader2 :: "Block \<Rightarrow> blockOverride option list \<Rightarrow> string" where
  "RenderPageHeader2 b ov =
     (case firstOverride ov of Some f \<Rightarrow> f b | None \<Rightarrow> ''## '' @ Text b)"

definition RenderPageHeader3 :: "Block \<Rightarrow> blockOverride option list \<Rightarrow> string" where
  "RenderPageHeader3 b ov =
     (case firstOverride ov of Some f \<Rightarrow> f b | None \<Rightarrow> ''### '' @ Text b)"

definition RenderParagraph :: "Block \<Rightarrow> blockOverride option list \<Rightarrow> string" where
  "RenderParagraph b ov =
     (case firstOverride ov of Some f \<Rightarrow> f b | None \<Rightarrow> Text b)"

definition RenderDivider :: "Block \<Rightarrow> blockOverride option list \<Rightarrow> string" where
  "RenderDivider b ov =
     (case firstOverride ov of Some f \<Rightarrow> f b | None \<Rightarrow> ''---'')"

definition RenderNumberedList :: "Block \<Rightarrow> blockOverride option list \<Rightarrow> string" where
  "RenderNumberedList b ov =
     (case firstOverride ov of Some f \<Rightarrow> f b | None \<Rightarrow> ''1. '' @ Text b)"

definition RenderBulletedList :: "Block \<Rightarrow> blockOverride option list \<Rightarrow> string" where
  "RenderBulletedList b ov =
     (case firstOverride ov of Some f \<Rightarrow> f b | None \<Rightarrow> ''* '' @ Text b)"

definition RenderCallout :: "Block \<Rightarrow> blockOverride option list \<Rightarrow> string" where
  "RenderCallout b ov =
     (case firstOverride ov of Some f \<Rightarrow> f b | None \<Rightarrow> ''> '' @ Text b)"

definition RenderQuote :: "Block \<Rightarrow> blockOverride option list \<Rightarrow> string" where
  "RenderQuote b ov =
     (case firstOverride ov of Some f \<Rightarrow> f b | None \<Rightarrow> ''> '' @ Text b)"

text \<open>
  \<open>RenderTableRow\<close>: the first loop appends one \<open>"| %s "\<close> group per cell and keeps the
  row index of the last cell's table state in the local \<open>currentRow\<close> (0 when there is no
  cell); the second loop appends one \<open>"| --- "\<close> group per cell.
\<close>

fun row_loop :: "string \<times> int \<Rightarrow> tableCell list \<Rightarrow> string \<times> int" where
  "row_loop (row, cur) [] = (row, cur)"
| "row_loop (row, cur) (c # cs) =
     row_loop (row @ ''| '' @ rowTxt c @ '' '', currentRow (tableRef c)) cs"

fun rowHeader_loop :: "string \<Rightarrow> tableCell list \<Rightarrow> string" where
  "rowHeader_loop rowHeader [] = rowHeader"
| "rowHeader_loop rowHeader (c # cs) = rowHeader_loop (rowHeader @ ''| --- '') cs"

definition RenderTableRow :: "tableCell list \<Rightarrow> rowOverride option list \<Rightarrow> string" where
  "RenderTableRow cells ov =
     (case firstOverride ov of
        Some f \<Rightarrow> f cells
      | None \<Rightarrow>
          (let (row0, cur) = row_loop ('''', 0) cells;
               row = row0 @ ''|''
           in if cur = 0
              then row @ ''\<newline>'' @ (rowHeader_loop '''' cells @ ''|'')
              else row))"

text \<open>
  \<open>RenderTodoList\<close>: the pointer \<open>tb\<close> stays nil unless the type string of the block
  is to_do, and \<open>tb.ToDo.Checked\<close> then panics; \<open>RenderCode\<close> has the same shape.
\<close>

definition mdTodoUnchecked :: "string \<Rightarrow> string" where
  "mdTodoUnchecked s = ''* [] '' @ s"

definition mdTodoChecked :: "string \<Rightarrow> string" where
  "mdTodoChecked s = ''* [x] '' @ s"

definition RenderTodoList :: "Block \<Rightarrow> blockOverride option list \<Rightarrow> string res" where
  "RenderTodoList b ov =
     (case firstOverride ov of
        Some f \<Rightarrow> Value (f b)
      | None \<Rightarrow>
          if GetType (BlockRef b) = ''to_do''
          then (case Data (BlockRef b) of
                  ToDoBlock rt checked \<Rightarrow>
                    if checked then Value (mdTodoChecked (Text b))
                    else Value (mdTodoUnchecked (Text b))
                | _ \<Rightarrow> Panic TypeAssertion)
          else Panic NilDereference)"

definition languages :: "string \<rightharpoonup> string" where
  "languages = [''c++'' \<mapsto> ''cpp'', ''c#'' \<mapsto> ''csharp'', ''f#'' \<mapsto> ''fsharp'',
                ''plain text'' \<mapsto> ''txt'']"

definition ResolveLanguageForCodeBlock :: "string \<Rightarrow> string" where
  "ResolveLanguageForCodeBlock language =
     (case languages language of Some val \<Rightarrow> val | None \<Rightarrow> language)"

definition RenderCode :: "Block \<Rightarrow> blockOverride option list \<Rightarrow> string res" where
  "RenderCode b ov =
     (case firstOverride ov of
        Some f \<Rightarrow> Value (f b)
      | None \<Rightarrow>
          if GetType (BlockRef b) = ''code''
          then (case Data (BlockRef b) of
                  CodeBlock rt language \<Rightarrow>
                    Value (''```'' @ ResolveLanguageForCodeBlock language @ ''\<newline>'' @ Text b
                           @ ''\<newline>'' @ ''```'')
                | _ \<Rightarrow> Panic TypeAssertion)
          else Panic NilDereference)"

subsection \<open>Padding and separation\<close>

text \<open>
  \<open>strings.ReplaceAll(s, "\n", "\n" + padding)\<close> rewrites every line feed of \<open>s\<close>.
\<close>

definition replaceNewlines :: "string \<Rightarrow> string \<Rightarrow> string" where
  "replaceNewlines padding s =
     concat (map (\<lambda>ch. if ch = CHR 0x0A then ''\<newline>'' @ padding else [ch]) s)"

definition createPadding :: "int \<Rightarrow> string" where
  "createPadding d = replicate (nat (d * 4)) CHR '' ''"

definition AddPadding :: "Block \<Rightarrow> blockOverride option list \<Rightarrow> string" where
  "AddPadding b ov =
     (case firstOverride ov of
        Some f \<Rightarrow> f b
      | None \<Rightarrow>
          if Depth b = 0 then Text b
          else replaceNewlines (createPadding (Depth b)) (createPadding (Depth b) @ Text b))"

definition AddSectionSeperation ::
  "string \<Rightarrow> string \<Rightarrow> seperationOverride option list \<Rightarrow> string" where
  "AddSectionSeperation previousType currentType ov =
     (case firstOverride ov of
        Some f \<Rightarrow> f previousType currentType
      | None \<Rightarrow>
          if previousType = ''table_row'' \<and> currentType = ''table_row'' then ''\<newline>''
          else if previousType = ''to_do'' \<and> currentType = ''to_do'' then ''\<newline>''
          else if previousType = ''numbered_list_item'' \<and> currentType = ''numbered_list_item''
            then ''\<newline>''
          else if previousType = ''bulleted_list_item'' \<and> currentType = ''bulleted_list_item''
            then ''\<newline>''
          else if currentType = ''heading_1'' then ''\<newline>\<newline>''
          else if currentType = ''heading_2'' then ''\<newline>\<newline>''
          else if currentType = ''heading_3'' then ''\<newline>\<newline>''
          else if currentType = ''table_row'' then ''\<newline>\<newline>''
          else if currentType = ''to_do'' then ''\<newline>\<newline>''
          else if currentType = ''numbered_list_item'' then ''\<newline>\<newline>''
          else if currentType = ''bulleted_list_item'' then ''\<newline>\<newline>''
          else if currentType = ''paragraph'' then ''\<newline>\<newline>''
          else if currentType = ''divider'' then ''\<newline>\<newline>''
          else if currentType = ''code'' then ''\<newline>\<newline>''
          else if currentType = ''quote'' then ''\<newline>\<newline>''
          else if currentType = ''callout'' then ''\<newline>\<newline>''
          else if currentType = ''image'' then ''\<newline>\<newline>''
          else '''')"

text \<open>The two sets of variant tags the separation policy is worded with.\<close>

definition tightVariants :: "string set" where
  "tightVariants = {''table_row'', ''to_do'', ''numbered_list_item'', ''bulleted_list_item''}"

definition renderableVariants :: "string set" where
  "renderableVariants =
     {''heading_1'', ''heading_2'', ''heading_3'', ''table_row'', ''to_do'',
      ''numbered_list_item'', ''bulleted_list_item'', ''paragraph'', ''divider'', ''code'',
      ''quote'', ''callout'', ''image''}"

section \<open>Page title and page header\<close>

text \<open>
  \<open>ResolveTitleInPage\<close>: the loop keeps the last property of type title in the pointer
  \<open>title\<close>, which starts nil; \<open>len(title.Title)\<close> then dereferences it.
\<close>

fun title_loop :: "RichText list option \<Rightarrow> (string \<times> Property) list \<Rightarrow> RichText list option res" where
  "title_loop title [] = Value title"
| "title_loop title ((k, v) # ps) =
     (if propertyType v = ''title''
      then (case v of TitleProperty rt \<Rightarrow> title_loop (Some rt) ps
                    | OtherProperty _ \<Rightarrow> Panic TypeAssertion)
      else title_loop title ps)"

definition ResolveTitleInPage :: "Page \<Rightarrow> string res" where
  "ResolveTitleInPage p =
     (case title_loop None (Properties p) of
        Value None \<Rightarrow> Panic NilDereference
      | Value (Some title) \<Rightarrow>
          if length title < 1 then Value '''' else Value (PlainText (title ! 0))
      | Err e \<Rightarrow> Err e
      | Panic x \<Rightarrow> Panic x)"

text \<open>
  \<open>RenderPageHeader\<close> and \<open>RenderPageFooter\<close> call the first override whenever one is
  passed (\<open>len(o) > 0\<close>), without the nil test of the block renderers: calling a nil
  function value panics.
\<close>

definition RenderPageHeader :: "Page \<Rightarrow> headerFooterOverride option list \<Rightarrow> string res" where
  "RenderPageHeader pg ov =
     (case ov of
        Some f # _ \<Rightarrow> Value (f pg)
      | None # _ \<Rightarrow> Panic NilDereference
      | [] \<Rightarrow> (case ResolveTitleInPage pg of
                 Value title \<Rightarrow> Value (''# '' @ title)
               | Err e \<Rightarrow> Err e
               | Panic x \<Rightarrow> Panic x))"

definition RenderPageFooter :: "Page \<Rightarrow> headerFooterOverride option list \<Rightarrow> string res" where
  "RenderPageFooter pg ov =
     (case ov of
        Some f # _ \<Rightarrow> Value (f pg)
      | None # _ \<Rightarrow> Panic NilDereference
      | [] \<Rightarrow> Value '''')"

section \<open>Saving images\<close>

text \<open>
  The functions of the Go library that the exporter calls and whose results depend on
  more than the exporter's own code are parameters: \<open>fmt.Sprintf\<close> of a format without
  operands, the path of \<open>url.Parse\<close> (or its error), \<open>filepath.Join\<close> of two elements and
  \<open>http.Get\<close> (an error, or a response with its status code and body; \<open>BodyError\<close> is the
  error that reading the body ends with, if any).
\<close>

record Response =
  StatusCode :: int
  Body :: string
  BodyError :: "string option"

record Lib =
  fmtSprintf :: "string \<Rightarrow> string"
  urlParsePath :: "string \<Rightarrow> string + string"
  filepathJoin :: "string \<Rightarrow> string \<Rightarrow> string"
  httpGet :: "string \<Rightarrow> string + Response"

text \<open>
  The file system is a map from path names to nodes; \<open>denied\<close> holds the paths at which
  creating a file or a directory fails; \<open>fetched\<close> is the list of addresses requested
  with HTTP GET so far, in order. \<open>os.Stat\<close> of a path reports that it does not exist
  exactly when the map has no node for it.
\<close>

datatype node = DirNode | FileNode string

record World =
  files :: "string \<rightharpoonup> node"
  denied :: "string set"
  fetched :: "string list"

definition MkdirAll :: "string \<Rightarrow> World \<Rightarrow> World" where
  "MkdirAll path w =
     (if path \<in> denied w then w else w\<lparr>files := (files w)(path \<mapsto> DirNode)\<rparr>)"

text \<open>\<open>createPathIfNonExistent\<close>; its caller drops the error it returns.\<close>

definition createPathIfNonExistent :: "string \<Rightarrow> World \<Rightarrow> World" where
  "createPathIfNonExistent path w =
     (if files w path = None then MkdirAll path w else w)"

definition osCreate :: "string \<Rightarrow> World \<Rightarrow> string + World" where
  "osCreate path w =
     (if path \<in> denied w \<or> files w path = Some DirNode then Inl ''open: cannot create file''
      else Inr (w\<lparr>files := (files w)(path \<mapsto> FileNode '''')\<rparr>))"

text \<open>\<open>strings.Split(s, "/")\<close>.\<close>

fun split_loop :: "string \<Rightarrow> string \<Rightarrow> string list" where
  "split_loop cur [] = [cur]"
| "split_loop cur (ch # cs) =
     (if ch = CHR ''/'' then cur # split_loop [] cs else split_loop (cur @ [ch]) cs)"

definition Split :: "string \<Rightarrow> string list" where
  "Split s = split_loop [] s"

definition ResolveImageSaveOptions :: "ImageSaveOptions list \<Rightarrow> ImageSaveOptions" where
  "ResolveImageSaveOptions opts =
     (let config = \<lparr>SavePath = ''images'', IgnoreImages = False, OverwriteExisting = False\<rparr>
      in if length opts < 1 then config
         else
           (let config1 = (if SavePath (opts ! 0) \<noteq> ''''
                           then config\<lparr>SavePath := SavePath (opts ! 0)\<rparr> else config);
                config2 = (if IgnoreImages (opts ! 0)
                           then config1\<lparr>IgnoreImages := IgnoreImages (opts ! 0)\<rparr> else config1)
            in config2))"

definition SaveNotionImageToFilesystem ::
  "Lib \<Rightarrow> string \<Rightarrow> ImageSaveOptions list \<Rightarrow> World \<Rightarrow> string res \<times> World" where
  "SaveNotionImageToFilesystem lib address opts w =
     (let config = ResolveImageSaveOptions opts;
          w1 = createPathIfNonExistent (SavePath config) w
      in case urlParsePath lib address of
           Inl err \<Rightarrow> (Err (SysError err), w1)
         | Inr upath \<Rightarrow>
             (let resources = Split upath
              in if length resources < 2 then (Err (InvalidImagePath address), w1)
                 else if \<not> 2 < length resources then (Panic IndexOutOfRange, w1)
                 else
                   (let fileName = resources ! 2;
                        filePath = filepathJoin lib (SavePath config) fileName @ ''.png''
                    in if \<not> OverwriteExisting config \<and> files w1 filePath \<noteq> None
                       then (Value filePath, w1)
                       else
                         (let w2 = w1\<lparr>fetched := fetched w1 @ [address]\<rparr>
                          in case httpGet lib address of
                               Inl err \<Rightarrow> (Err (SysError err), w2)
                             | Inr resp \<Rightarrow>
                                 if StatusCode resp \<noteq> 200
                                 then (Err (Non200Status (StatusCode resp)), w2)
                                 else
                                   (case osCreate filePath w2 of
                                      Inl err \<Rightarrow> (Err (SysError err), w2)
                                    | Inr w3 \<Rightarrow>
                                        (let w4 = w3\<lparr>files := (files w3)(filePath \<mapsto> FileNode (Body resp))\<rparr>
                                         in case BodyError resp of
                                              Some err \<Rightarrow> (Err (SysError err), w4)
                                            | None \<Rightarrow> (Value filePath, w4)))))))"

definition zeroImageSaveOptions :: ImageSaveOptions where
  "zeroImageSaveOptions = \<lparr>SavePath = '''', IgnoreImages = False, OverwriteExisting = False\<rparr>"

definition zeroTableState :: tableState where
  "zeroTableState = \<lparr>tableBlock = None, rowQuantity = 0, currentRow = 0\<rparr>"

definition zeroOverrides :: OverrideOptions where
  "zeroOverrides =
     \<lparr>Header1 = None, Header2 = None, Header3 = None, Paragraph = None, BulletedList = None,
      NumberedList = None, Divider = None, CodeO = None, Todo = None, Quote = None,
      Callout = None, ImageO = None, Padding = None, Row = None, PageHeader = None,
      PageFooter = None\<rparr>"

definition zeroRenderSettings :: RenderSettings where
  "zeroRenderSettings =
     \<lparr>ImageOpts = zeroImageSaveOptions, SkipEmptyParagraphs = False,
      tableState = zeroTableState, previousElementType = '''', depth = 0\<rparr>"

definition zeroRenderOptions :: RenderOptions where
  "zeroRenderOptions =
     \<lparr>ImageOpts = zeroImageSaveOptions, SkipEmptyParagraphs = False,
      tableState = zeroTableState, previousElementType = '''', depth = 0,
      Overrides = zeroOverrides\<rparr>"

text \<open>
  \<open>resolveRenderConfig\<close> returns the first option, or the zero value when there is none;
  \<open>resolveRenderSettings\<close> is the same function on the options a \<open>Block\<close> carries.
\<close>

definition resolveRenderConfig :: "RenderOptions list \<Rightarrow> RenderOptions" where
  "resolveRenderConfig opts = (if length opts < 1 then zeroRenderOptions else opts ! 0)"

definition resolveRenderSettings :: "RenderSettings list \<Rightarrow> RenderSettings" where
  "resolveRenderSettings opts = (if length opts < 1 then zeroRenderSettings else opts ! 0)"

definition mdImage :: "string \<Rightarrow> string \<Rightarrow> string" where
  "mdImage alt target = ''!['' @ alt @ '']('' @ target @ '')''"

definition RenderImage ::
  "Lib \<Rightarrow> Block \<Rightarrow> imageOverride option list \<Rightarrow> World \<Rightarrow> string res \<times> World" where
  "RenderImage lib b ov w =
     (case firstOverride ov of
        Some f \<Rightarrow> (case f b of Inl err \<Rightarrow> (Err err, w) | Inr s \<Rightarrow> (Value s, w))
      | None \<Rightarrow>
          if GetType (BlockRef b) \<noteq> ''image''
          then (Err (NotAnImageBlock (GetType (BlockRef b))), w)
          else
            (let config = resolveRenderSettings (Opts b)
             in case Data (BlockRef b) of
                  ImageBlock ib \<Rightarrow>
                    (case External ib of
                       Some url \<Rightarrow> (Value (mdImage ''image'' url), w)
                     | None \<Rightarrow>
                         (case File ib of
                            Some url \<Rightarrow>
                              (case SaveNotionImageToFilesystem lib url [ImageOpts config] w of
                                 (Value filePath, w') \<Rightarrow> (Value (mdImage ''image'' filePath), w')
                               | (Err err, w') \<Rightarrow> (Err err, w')
                               | (Panic x, w') \<Rightarrow> (Panic x, w'))
                          | None \<Rightarrow> (Value (mdImage ''image'' ''''), w)))
                | _ \<Rightarrow> (Panic TypeAssertion, w)))"

section \<open>The exporter\<close>

text \<open>
  Modelled from the spec: the content source (the Notion client \<open>e.c\<close>): fetch a page by
  id, and fetch one pagination page of the children of a block id. A request names the
  cursor to start from (empty: the first page) and a page size; a response holds the
  blocks of that page in source order, whether more pages follow, and the cursor of the
  next page. An error of the client is its message.
\<close>

record Pagination =
  StartCursor :: string
  PageSize :: int

record GetChildrenResponse =
  Results :: "NBlock list"
  NextCursor :: string
  HasMore :: bool

record Client =
  PageGet :: "string \<Rightarrow> string + Page"
  GetChildren :: "string \<Rightarrow> Pagination \<Rightarrow> string + GetChildrenResponse"

text \<open>
  The mutable part of the exporter is the buffer \<open>e.page\<close>; the state threaded through
  the calls is the buffer together with the world that saving an image changes. The
  renderer of the exporter is the Markdown renderer.
\<close>

record exporter =
  e_page :: string
  e_world :: World

text \<open>
  The table-row case of \<open>renderBlocks\<close>: one cell per element of \<open>in.TableRow.Cells\<close>.
  The header test dereferences \<open>config.tableState.tableBlock\<close>, which is nil until a
  table block has been seen.
\<close>

fun cells_loop ::
  "(string \<Rightarrow> string) \<Rightarrow> tableState \<Rightarrow> nat \<Rightarrow> tableCell list \<Rightarrow> RichText list list
   \<Rightarrow> tableCell list res" where
  "cells_loop sp ts i cells [] = Value cells"
| "cells_loop sp ts i cells (cl # cs) =
     (case tableBlock ts of
        None \<Rightarrow> Panic NilDereference
      | Some tb \<Rightarrow>
          (let rHeader = (HasRowHeader tb \<and> currentRow ts = 0);
               cHeader = (HasColumnHeader tb \<and> i = 0);
               tc = \<lparr>rowTxt = RenderText sp cl [], isRowHeader = rHeader,
                     isColumnHeader = cHeader, tableRef = ts\<rparr>
           in cells_loop sp ts (i + 1) (cells @ [tc]) cs))"

text \<open>
  One pass through the \<open>switch\<close> of the loop body of \<open>renderBlocks\<close> for the block \<open>b\<close>:
  the result is the rendering \<open>rend\<close> of the block (\<open>Some\<close>), or \<open>None\<close> where the
  source says \<open>continue\<close>; with it come the configuration, which the table cases
  update, and the world. A type assertion fails when the type string of the block and its
  Go type disagree.
\<close>

definition renderSwitch ::
  "Lib \<Rightarrow> RenderOptions list \<Rightarrow> RenderOptions \<Rightarrow> Page \<Rightarrow> NBlock \<Rightarrow> World
   \<Rightarrow> string option res \<times> RenderOptions \<times> World" where
  "renderSwitch lib opts config pg b w =
     (let t = GetType b;
          sp = fmtSprintf lib;
          ov = Overrides config;
          blk = (\<lambda>txt. \<lparr>Text = txt, BlockRef = b, Opts = map RenderSettings.truncate opts,
                        Depth = depth config, PageRef = Some pg\<rparr>)
      in
      if t = ''heading_1'' then
        (case Data b of
           Heading1Block rt \<Rightarrow>
             (Value (Some (RenderPageHeader1 (blk (RenderText sp rt [])) [Header1 ov])), config, w)
         | _ \<Rightarrow> (Panic TypeAssertion, config, w))
      else if t = ''heading_2'' then
        (case Data b of
           Heading2Block rt \<Rightarrow>
             (Value (Some (RenderPageHeader2 (blk (RenderText sp rt [])) [Header2 ov])), config, w)
         | _ \<Rightarrow> (Panic TypeAssertion, config, w))
      else if t = ''heading_3'' then
        (case Data b of
           Heading3Block rt \<Rightarrow>
             (Value (Some (RenderPageHeader3 (blk (RenderText sp rt [])) [Header3 ov])), config, w)
         | _ \<Rightarrow> (Panic TypeAssertion, config, w))
      else if t = ''paragraph'' then
        (case Data b of
           ParagraphBlock rt \<Rightarrow>
             if SkipEmptyParagraphs config \<and> length rt < 1 then (Value None, config, w)
             else (Value (Some (RenderParagraph (blk (RenderText sp rt [])) [Paragraph ov])),
                   config, w)
         | _ \<Rightarrow> (Panic TypeAssertion, config, w))
      else if t = ''bulleted_list_item'' then
        (case Data b of
           BulletedListItemBlock rt \<Rightarrow>
             (Value (Some (RenderBulletedList (blk (RenderText sp rt [])) [BulletedList ov])),
              config, w)
         | _ \<Rightarrow> (Panic TypeAssertion, config, w))
      else if t = ''numbered_list_item'' then
        (case Data b of
           NumberedListItemBlock rt \<Rightarrow>
             (Value (Some (RenderNumberedList (blk (RenderText sp rt [])) [NumberedList ov])),
              config, w)
         | _ \<Rightarrow> (Panic TypeAssertion, config, w))
      else if t = ''to_do'' then
        (case Data b of
           ToDoBlock rt checked \<Rightarrow>
             (case RenderTodoList (blk (RenderText sp rt [])) [Todo ov] of
                Value rend \<Rightarrow> (Value (Some rend), config, w)
              | Err err \<Rightarrow> (Err err, config, w)
              | Panic x \<Rightarrow> (Panic x, config, w))
         | _ \<Rightarrow> (Panic TypeAssertion, config, w))
      else if t = ''divider'' then
        (case Data b of
           DividerBlock \<Rightarrow>
             (Value (Some (RenderDivider
                \<lparr>Text = '''', BlockRef = b, Opts = [], Depth = 0, PageRef = None\<rparr> [Divider ov])),
              config, w)
         | _ \<Rightarrow> (Panic TypeAssertion, config, w))
      else if t = ''code'' then
        (case Data b of
           CodeBlock rt language \<Rightarrow>
             (case RenderCode (blk (RenderText sp rt [])) [CodeO ov] of
                Value rend \<Rightarrow> (Value (Some rend), config, w)
              | Err err \<Rightarrow> (Err err, config, w)
              | Panic x \<Rightarrow> (Panic x, config, w))
         | _ \<Rightarrow> (Panic TypeAssertion, config, w))
      else if t = ''table'' then
        (case Data b of
           TableBlock tb \<Rightarrow>
             (Value (Some ''''),
              config\<lparr>tableState := (tableState config)\<lparr>tableBlock := Some tb, currentRow := 0\<rparr>\<rparr>,
              w)
         | _ \<Rightarrow> (Panic TypeAssertion, config, w))
      else if t = ''table_row'' then
        (case Data b of
           TableRowBlock cs \<Rightarrow>
             (case cells_loop sp (tableState config) 0 [] cs of
                Value cells \<Rightarrow>
                  (Value (Some (RenderTableRow cells [Row ov])),
                   config\<lparr>tableState :=
                     (tableState config)\<lparr>currentRow := currentRow (tableState config) + 1\<rparr>\<rparr>,
                   w)
              | Err err \<Rightarrow> (Err err, config, w)
              | Panic x \<Rightarrow> (Panic x, config, w))
         | _ \<Rightarrow> (Panic TypeAssertion, config, w))
      else if t = ''quote'' then
        (case Data b of
           QuoteBlock rt \<Rightarrow>
             (Value (Some (RenderQuote (blk (RenderText sp rt [])) [Quote ov])), config, w)
         | _ \<Rightarrow> (Panic TypeAssertion, config, w))
      else if t = ''callout'' then
        (case Data b of
           CalloutBlock rt \<Rightarrow>
             (Value (Some (RenderCallout (blk (RenderText sp rt [])) [Callout ov])), config, w)
         | _ \<Rightarrow> (Panic TypeAssertion, config, w))
      else if t = ''image'' then
        (if IgnoreImages (ImageOpts config) then (Value None, config, w)
         else
           (case Data b of
              ImageBlock ib \<Rightarrow>
                (case RenderImage lib
                        \<lparr>Text = '''', BlockRef = b, Opts = map RenderSettings.truncate opts,
                         Depth = 0, PageRef = Some pg\<rparr> [ImageO ov] w of
                   (Value rend, w') \<Rightarrow> (Value (Some rend), config, w')
                 | (Err err, w') \<Rightarrow> (Err err, config, w')
                 | (Panic x, w') \<Rightarrow> (Panic x, config, w'))
            | _ \<Rightarrow> (Panic TypeAssertion, config, w)))
      else (Value (Some ''''), config, w))"

text \<open>
  The configuration handed to the recursive call on the children of \<open>b\<close>: a copy of the
  configuration, one level deeper unless \<open>b\<close> is a table.
\<close>

definition childConfig :: "RenderOptions \<Rightarrow> NBlock \<Rightarrow> RenderOptions" where
  "childConfig config b =
     (if GetType b \<noteq> ''table'' then config\<lparr>depth := depth config + 1\<rparr> else config)"

text \<open>
  \<open>renderBlocks\<close> and its loop over \<open>blocks.Results\<close>. The children of a block are
  rendered by a recursive call, and nothing bounds the nesting the content source serves,
  so the recursion takes fuel: the first argument bounds the nesting depth, and \<open>None\<close>
  says that it was too small. The children are fetched with one request, for the empty
  pagination \<open>&na.Pagination{}\<close>. The two results of the recursive call are dropped by the
  source (\<open>e.renderBlocks(string(b.GetID()), configCopy)\<close> is a statement); what the call
  appended to \<open>e.page\<close> stays, and a panic in it unwinds the caller too.
\<close>

fun renderBlocks ::
    "nat \<Rightarrow> Lib \<Rightarrow> Client \<Rightarrow> string \<Rightarrow> RenderOptions list \<Rightarrow> exporter
     \<Rightarrow> (unit res \<times> exporter) option"
  and blocks_loop ::
    "nat \<Rightarrow> Lib \<Rightarrow> Client \<Rightarrow> RenderOptions list \<Rightarrow> Page \<Rightarrow> RenderOptions \<Rightarrow> NBlock list
     \<Rightarrow> exporter \<Rightarrow> (unit res \<times> exporter) option"
where
  "renderBlocks 0 lib cl pageID opts e = None"
| "renderBlocks (Suc n) lib cl pageID opts e =
     (case PageGet cl pageID of
        Inl err \<Rightarrow> Some (Err (FailedRetrievePage (ClientError err)), e)
      | Inr pg \<Rightarrow>
          (case GetChildren cl pageID \<lparr>StartCursor = '''', PageSize = 0\<rparr> of
             Inl err \<Rightarrow> Some (Err (FailedRetrieveData (ClientError err)), e)
           | Inr blocks \<Rightarrow>
               blocks_loop n lib cl opts pg (resolveRenderConfig opts) (Results blocks) e))"
| "blocks_loop n lib cl opts pg config [] e = Some (Value (), e)"
| "blocks_loop n lib cl opts pg config (b # bs) e =
     (case renderSwitch lib opts config pg b (e_world e) of
        (Panic x, config', w) \<Rightarrow> Some (Panic x, e\<lparr>e_world := w\<rparr>)
      | (Err err, config', w) \<Rightarrow> Some (Err err, e\<lparr>e_world := w\<rparr>)
      | (Value None, config', w) \<Rightarrow> blocks_loop n lib cl opts pg config' bs (e\<lparr>e_world := w\<rparr>)
      | (Value (Some rend), config', w) \<Rightarrow>
          (let padded = AddPadding
                 \<lparr>Text = rend, BlockRef = b, Opts = [], Depth = depth config', PageRef = None\<rparr> [];
               e1 = \<lparr>e_page = e_page e
                        @ AddSectionSeperation (previousElementType config') (GetType b) []
                        @ padded,
                     e_world = w\<rparr>;
               config1 = config'\<lparr>previousElementType := GetType b\<rparr>
           in if GetHasChildren b
              then (case renderBlocks n lib cl (GetID b) [childConfig config1 b] e1 of
                      None \<Rightarrow> None
                    | Some (Panic x, e2) \<Rightarrow> Some (Panic x, e2)
                    | Some (Err err, e2) \<Rightarrow> blocks_loop n lib cl opts pg config1 bs e2
                    | Some (Value u, e2) \<Rightarrow> blocks_loop n lib cl opts pg config1 bs e2)
              else blocks_loop n lib cl opts pg config1 bs e1))"

text \<open>\<open>Render\<close> and \<open>RenderAppend\<close>.\<close>

definition Render ::
  "nat \<Rightarrow> Lib \<Rightarrow> Client \<Rightarrow> string \<Rightarrow> RenderOptions list \<Rightarrow> exporter
   \<Rightarrow> (unit res \<times> exporter) option" where
  "Render n lib cl pageID opts e =
     (let config = resolveRenderConfig opts;
          e0 = e\<lparr>e_page := ''''\<rparr>
      in case PageGet cl pageID of
           Inl err \<Rightarrow> Some (Err (FailedGettingPage pageID (ClientError err)), e0)
         | Inr p \<Rightarrow>
             (case RenderPageHeader p [PageHeader (Overrides config)] of
                Panic x \<Rightarrow> Some (Panic x, e0)
              | Err err \<Rightarrow> Some (Err err, e0)
              | Value header \<Rightarrow>
                  (case renderBlocks n lib cl pageID opts (e0\<lparr>e_page := e_page e0 @ header\<rparr>) of
                     None \<Rightarrow> None
                   | Some (Panic x, e2) \<Rightarrow> Some (Panic x, e2)
                   | Some (Err err, e2) \<Rightarrow> Some (Err (FailedRenderingPage err), e2)
                   | Some (Value u, e2) \<Rightarrow>
                       (case RenderPageFooter p [PageFooter (Overrides config)] of
                          Panic x \<Rightarrow> Some (Panic x, e2)
                        | Err err \<Rightarrow> Some (Err err, e2)
                        | Value footer \<Rightarrow>
                            Some (Value (), e2\<lparr>e_page := e_page e2 @ footer\<rparr>)))))"

definition RenderAppend ::
  "nat \<Rightarrow> Lib \<Rightarrow> Client \<Rightarrow> string \<Rightarrow> RenderOptions list \<Rightarrow> exporter
   \<Rightarrow> (unit res \<times> exporter) option" where
  "RenderAppend n lib cl pageID opts e =
     renderBlocks n lib cl pageID opts (e\<lparr>e_page := e_page e @ ''\<newline>\<newline>''\<rparr>)"

section \<open>Concrete inputs\<close>

text \<open>The inputs at which the theorems below are evaluated.\<close>

definition plainRun :: "string \<Rightarrow> RichText" where
  "plainRun s = \<lparr>Content = s, PlainText = s, Href = '''', Bold = False, Italic = False,
                 Strikethrough = False, Code = False\<rparr>"

definition linkBoldRun :: RichText where
  "linkBoldRun = \<lparr>Content = ''a'', PlainText = ''a'', Href = ''u'', Bold = True,
                   Italic = False, Strikethrough = False, Code = False\<rparr>"

definition noHeaderTableState :: tableState where
  "noHeaderTableState =
     \<lparr>tableBlock = Some \<lparr>HasRowHeader = False, HasColumnHeader = False\<rparr>,
      rowQuantity = 0, currentRow = 0\<rparr>"

definition noHeaderCell :: tableCell where
  "noHeaderCell = \<lparr>rowTxt = ''a'', isRowHeader = False, isColumnHeader = False,
                    tableRef = noHeaderTableState\<rparr>"

definition uncheckedTodo :: Block where
  "uncheckedTodo =
     \<lparr>Text = ''a'',
      BlockRef = \<lparr>ID = ''t'', HasChildren = False, Data = ToDoBlock [plainRun ''a''] False\<rparr>,
      Opts = [], Depth = 0, PageRef = None\<rparr>"

definition untitledPage :: Page where
  "untitledPage = \<lparr>Properties = [(''Tags'', OtherProperty ''multi_select'')]\<rparr>"

definition emptyTitlePage :: Page where
  "emptyTitlePage = \<lparr>Properties = [(''Name'', TitleProperty [])]\<rparr>"

definition imageAddress :: string where
  "imageAddress = ''https://s3.test/secure/abc/img.png''"

definition lib0 :: Lib where
  "lib0 = \<lparr>fmtSprintf = (\<lambda>s. s),
           urlParsePath = (\<lambda>a. if a = imageAddress then Inr ''/secure/abc/img.png''
                                else Inl ''parse error''),
           filepathJoin = (\<lambda>d f. d @ ''/'' @ f),
           httpGet = (\<lambda>a. Inr \<lparr>StatusCode = 200, Body = ''new'', BodyError = None\<rparr>)\<rparr>"

definition emptyWorld :: World where
  "emptyWorld = \<lparr>files = Map.empty, denied = {}, fetched = []\<rparr>"

definition savedWorld :: World where
  "savedWorld = \<lparr>files = [''images'' \<mapsto> DirNode, ''images/abc.png'' \<mapsto> FileNode ''old''],
                 denied = {}, fetched = []\<rparr>"

definition firstSaveWorld :: World where
  "firstSaveWorld = \<lparr>files = [''images'' \<mapsto> DirNode, ''images/abc.png'' \<mapsto> FileNode ''new''],
                     denied = {}, fetched = [imageAddress]\<rparr>"

definition overwriteOpts :: ImageSaveOptions where
  "overwriteOpts = \<lparr>SavePath = ''images'', IgnoreImages = False, OverwriteExisting = True\<rparr>"

definition e0 :: exporter where
  "e0 = \<lparr>e_page = '''', e_world = emptyWorld\<rparr>"

definition para :: "string \<Rightarrow> bool \<Rightarrow> string \<Rightarrow> NBlock" where
  "para i ch s = \<lparr>ID = i, HasChildren = ch, Data = ParagraphBlock [plainRun s]\<rparr>"

definition tableWithRows :: NBlock where
  "tableWithRows =
     \<lparr>ID = ''t'', HasChildren = True,
      Data = TableBlock \<lparr>HasRowHeader = True, HasColumnHeader = False\<rparr>\<rparr>"

text \<open>
  A source that serves the children of page \<open>p\<close> in two pagination pages of one block
  each, and a source that serves the same first page and nothing after it.
\<close>

definition twoPageClient :: Client where
  "twoPageClient =
     \<lparr>PageGet = (\<lambda>i. Inr \<lparr>Properties = []\<rparr>),
      GetChildren = (\<lambda>i pg.
        if i = ''p'' then
          (if StartCursor pg = '''' then
             Inr \<lparr>Results = [para ''b1'' False ''a''], NextCursor = ''c1'', HasMore = True\<rparr>
           else if StartCursor pg = ''c1'' then
             Inr \<lparr>Results = [para ''b2'' False ''b''], NextCursor = '''', HasMore = False\<rparr>
           else Inl ''bad cursor'')
        else Inl ''not found'')\<rparr>"

definition onePageClient :: Client where
  "onePageClient =
     \<lparr>PageGet = (\<lambda>i. Inr \<lparr>Properties = []\<rparr>),
      GetChildren = (\<lambda>i pg.
        if i = ''p'' then
          (if StartCursor pg = '''' then
             Inr \<lparr>Results = [para ''b1'' False ''a''], NextCursor = ''c1'', HasMore = True\<rparr>
           else Inl ''bad cursor'')
        else Inl ''not found'')\<rparr>"

text \<open>
  A source whose page \<open>p\<close> has one paragraph \<open>b\<close> that reports children, and that fails
  to fetch the children of \<open>b\<close>.
\<close>

definition failingChildClient :: Client where
  "failingChildClient =
     \<lparr>PageGet = (\<lambda>i. Inr \<lparr>Properties = []\<rparr>),
      GetChildren = (\<lambda>i pg.
        if i = ''p''
        then Inr \<lparr>Results = [para ''b'' True ''x''], NextCursor = '''', HasMore = False\<rparr>
        else Inl ''fetch failed'')\<rparr>"

definition headerFooterOpts :: RenderOptions where
  "headerFooterOpts =
     zeroRenderOptions\<lparr>Overrides :=
       zeroOverrides\<lparr>PageHeader := Some (\<lambda>p. ''# T''), PageFooter := Some (\<lambda>p. '''')\<rparr>\<rparr>"

section \<open>Notions the properties are stated with\<close>

text \<open>
  Overwriting is requested when the first option passed sets the flag (only the first
  option is respected).
\<close>

definition overwriteRequested :: "ImageSaveOptions list \<Rightarrow> bool" where
  "overwriteRequested opts = (0 < length opts \<and> OverwriteExisting (opts ! 0))"

text \<open>
  The local file derived from an image address: the third element of the URL's path,
  joined to the save path, with the extension; \<open>None\<close> when the address has no such
  element.
\<close>

definition derivedPath :: "Lib \<Rightarrow> string \<Rightarrow> ImageSaveOptions list \<Rightarrow> string option" where
  "derivedPath lib address opts =
     (case urlParsePath lib address of
        Inl err \<Rightarrow> None
      | Inr upath \<Rightarrow>
          if 2 < length (Split upath)
          then Some (filepathJoin lib (SavePath (ResolveImageSaveOptions opts)) (Split upath ! 2)
                     @ ''.png'')
          else None)"

text \<open>
  Two sources agree on first pages when they serve the same pages and, for every
  container, the same answer to the request for the first pagination page.
\<close>

definition firstPagesAgree :: "Client \<Rightarrow> Client \<Rightarrow> bool" where
  "firstPagesAgree cl cl' =
     (PageGet cl' = PageGet cl
      \<and> (\<forall>i. GetChildren cl' i \<lparr>StartCursor = '''', PageSize = 0\<rparr>
               = GetChildren cl i \<lparr>StartCursor = '''', PageSize = 0\<rparr>))"

section \<open>Properties of the Markdown renderer\<close>

lemma form_chosen:
  "form sp (chosen t) t =
     (if Href t \<noteq> '''' then mdLink (Content t) (Href t)
      else if Bold t then mdBold (Content t)
      else if Italic t then mdItalic (Content t)
      else if Strikethrough t then mdStrikeThrough (Content t)
      else if Code t then mdInlineCode (Content t)
      else sp (Content t))"
  by (simp add: chosen_def candidates_def)

lemma RenderText_loop_concat:
  "RenderText_loop sp parsed rt = parsed @ concat (map (\<lambda>t. form sp (chosen t) t) rt)"
proof (induction rt arbitrary: parsed)
  case Nil
  show ?case by simp
next
  case (Cons t ts)
  show ?case by (simp add: Cons.IH form_chosen)
qed

lemma row_loop_eq:
  "row_loop (row, cur) cells =
     (row @ concat (map (\<lambda>c. ''| '' @ rowTxt c @ '' '') cells),
      if cells = [] then cur else currentRow (tableRef (last cells)))"
  by (induction cells arbitrary: row cur) auto

lemma rowHeader_loop_eq:
  "rowHeader_loop rh cells = rh @ concat (map (\<lambda>c. ''| --- '') cells)"
  by (induction cells arbitrary: rh) auto

text \<open>
  C3. Without an override, \<open>AddSectionSeperation\<close> returns, for every pair of type
  strings, the empty string, one line break or two line breaks: one line break exactly
  when previous and current type are the same type among table_row, to_do,
  numbered_list_item and bulleted_list_item; two line breaks exactly when the pair is not
  such a pair and the current type is one of the thirteen rendered types; the empty
  string exactly in the remaining case. The function has no error or panic result.
\<close>

theorem AddSectionSeperation_policy:
  assumes "firstOverride ov = None"
  shows "AddSectionSeperation p c ov \<in> {'''', ''\<newline>'', ''\<newline>\<newline>''}
       \<and> ((AddSectionSeperation p c ov = ''\<newline>'') = (p = c \<and> c \<in> tightVariants))
       \<and> ((AddSectionSeperation p c ov = ''\<newline>\<newline>'')
            = (\<not> (p = c \<and> c \<in> tightVariants) \<and> c \<in> renderableVariants))
       \<and> ((AddSectionSeperation p c ov = '''')
            = (\<not> (p = c \<and> c \<in> tightVariants) \<and> c \<notin> renderableVariants))"
proof -
  have range: "AddSectionSeperation p c ov \<in> {'''', ''\<newline>'', ''\<newline>\<newline>''}"
    using assms unfolding AddSectionSeperation_def by simp
  have single: "(AddSectionSeperation p c ov = ''\<newline>'') = (p = c \<and> c \<in> tightVariants)"
    using assms unfolding AddSectionSeperation_def tightVariants_def by auto
  have double: "(AddSectionSeperation p c ov = ''\<newline>\<newline>'')
                  = (\<not> (p = c \<and> c \<in> tightVariants) \<and> c \<in> renderableVariants)"
    using assms unfolding AddSectionSeperation_def tightVariants_def renderableVariants_def
    by auto
  have none: "(AddSectionSeperation p c ov = '''')
                = (\<not> (p = c \<and> c \<in> tightVariants) \<and> c \<notin> renderableVariants)"
    using assms unfolding AddSectionSeperation_def tightVariants_def renderableVariants_def
    by auto
  from range single double none show ?thesis by blast
qed

theorem AddSectionSeperation_policy_witness:
  "firstOverride ([] :: seperationOverride option list) = None
   \<and> AddSectionSeperation ''to_do'' ''to_do'' [] = ''\<newline>''
   \<and> ''to_do'' \<in> tightVariants"
  using AddSectionSeperation_policy [of "[]" "''to_do''" "''to_do''"]
  by (simp add: tightVariants_def)

text \<open>
  C5, as amended. Without an override, a table row whose cells carry a table state with
  current row index 0 is rendered as the row of \<open>"| text "\<close> groups closed with a bar,
  followed by a line break and the header-separator row (one \<open>"| --- "\<close> group per cell,
  closed with a bar), whether or not the table declares a row header.
\<close>

theorem RenderTableRow_first_row:
  assumes "firstOverride ov = None"
      and "\<forall>c \<in> set cells. currentRow (tableRef c) = 0"
  shows "RenderTableRow cells ov =
           concat (map (\<lambda>c. ''| '' @ rowTxt c @ '' '') cells) @ ''|'' @ ''\<newline>''
           @ concat (map (\<lambda>c. ''| --- '') cells) @ ''|''"
proof -
  have "(if cells = [] then 0 else currentRow (tableRef (last cells))) = 0"
    using assms(2) by simp
  then show ?thesis
    using assms(1) by (simp add: RenderTableRow_def row_loop_eq rowHeader_loop_eq)
qed

theorem RenderTableRow_first_row_witness:
  "firstOverride ([] :: rowOverride option list) = None
   \<and> currentRow (tableRef noHeaderCell) = 0
   \<and> RenderTableRow [noHeaderCell, noHeaderCell] [] = ''| a | a |\<newline>| --- | --- |''"
  using RenderTableRow_first_row [of "[]" "[noHeaderCell, noHeaderCell]"]
  by (simp add: noHeaderCell_def noHeaderTableState_def)

text \<open>
  C5, the claim as stated fails: the table of this row declares no row header, its row
  index is 0, and the header-separator row is emitted.
\<close>

theorem RenderTableRow_no_row_header_counterexample:
  "HasRowHeader (the (tableBlock (tableRef noHeaderCell))) = False
   \<and> currentRow (tableRef noHeaderCell) = 0
   \<and> RenderTableRow [noHeaderCell] [] = ''| a |\<newline>| --- |''"
  by (simp add: noHeaderCell_def noHeaderTableState_def RenderTableRow_def)

text \<open>
  C6, the code at the failing input: a to-do block whose checked flag is false is
  rendered with the marker \<open>"* [] "\<close>, which has no space between the brackets.
\<close>

theorem RenderTodoList_unchecked_marker:
  "RenderTodoList uncheckedTodo [] = Value ''* [] a''
   \<and> RenderTodoList uncheckedTodo [] \<noteq> Value ''* [ ] a''"
  by (simp add: uncheckedTodo_def RenderTodoList_def GetType_def mdTodoUnchecked_def)

text \<open>
  C7. Without an override, \<open>RenderText\<close> is the concatenation, in order and with nothing
  in between, of one form per run, the form chosen by the precedence hyperlink, bold,
  italic, strikethrough, inline code, plain; a run with a hyperlink and the bold flag is
  rendered in the link form, which differs from the bold form.
\<close>

theorem RenderText_precedence:
  assumes "firstOverride ov = None"
  shows "RenderText sp rt ov = concat (map (\<lambda>t. form sp (chosen t) t) rt)
       \<and> (\<forall>t. Href t \<noteq> '''' \<and> Bold t \<longrightarrow>
             chosen t = Hyperlink
           \<and> RenderText sp [t] ov = mdLink (Content t) (Href t)
           \<and> RenderText sp [t] ov \<noteq> mdBold (Content t))"
proof -
  have eq: "\<And>xs. RenderText sp xs ov = concat (map (\<lambda>t. form sp (chosen t) t) xs)"
    using assms by (simp add: RenderText_def RenderText_loop_concat)
  have "chosen t = Hyperlink \<and> RenderText sp [t] ov = mdLink (Content t) (Href t)
          \<and> RenderText sp [t] ov \<noteq> mdBold (Content t)"
    if h: "Href t \<noteq> '''' \<and> Bold t" for t
  proof -
    have c: "chosen t = Hyperlink" using h by (simp add: chosen_def candidates_def)
    have r: "RenderText sp [t] ov = mdLink (Content t) (Href t)"
      using c by (simp add: eq)
    have "mdLink (Content t) (Href t) \<noteq> mdBold (Content t)"
      by (simp add: mdLink_def mdBold_def)
    with c r show ?thesis by simp
  qed
  with eq show ?thesis by blast
qed

theorem RenderText_precedence_witness:
  "firstOverride ([] :: richTextOverride option list) = None
   \<and> Href linkBoldRun \<noteq> '''' \<and> Bold linkBoldRun
   \<and> RenderText (\<lambda>s. s) [linkBoldRun, plainRun ''b''] [] = ''[a](u)b''
   \<and> RenderText (\<lambda>s. s) [linkBoldRun] [] \<noteq> ''**a**''"
  using RenderText_precedence [of "[]" "\<lambda>s. s" "[linkBoldRun, plainRun ''b'']"]
        RenderText_precedence [of "[]" "\<lambda>s. s" "[linkBoldRun]"]
  by (simp add: plainRun_def linkBoldRun_def chosen_def candidates_def mdLink_def mdBold_def)

section \<open>Page title\<close>

text \<open>
  C8, the code at the failing input: for a page none of whose properties has the title
  type, \<open>ResolveTitleInPage\<close> dereferences the nil pointer \<open>title\<close> and panics instead of
  returning the empty string. A title property with an empty rich text gives the empty
  string.
\<close>

theorem ResolveTitleInPage_no_title_property:
  "ResolveTitleInPage untitledPage = Panic NilDereference
   \<and> ResolveTitleInPage emptyTitlePage = Value ''''"
  by (simp add: ResolveTitleInPage_def untitledPage_def emptyTitlePage_def)

section \<open>Saving images\<close>

lemma Split_fixture: "Split ''/secure/abc/img.png'' = ['''', ''secure'', ''abc'', ''img.png'']"
  by (simp add: Split_def)

lemma createPath_fetched [simp]: "fetched (createPathIfNonExistent p w) = fetched w"
  by (simp add: createPathIfNonExistent_def MkdirAll_def)

lemma createPath_files:
  "files w q \<noteq> None \<Longrightarrow> files (createPathIfNonExistent p w) q = files w q"
  by (auto simp: createPathIfNonExistent_def MkdirAll_def)

lemma ResolveImageSaveOptions_overwrite [simp]:
  "OverwriteExisting (ResolveImageSaveOptions opts) = False"
  by (simp add: ResolveImageSaveOptions_def Let_def)

lemma Save_existing:
  assumes "derivedPath lib address opts = Some filePath"
      and "files w filePath \<noteq> None"
  shows "SaveNotionImageToFilesystem lib address opts w
           = (Value filePath, createPathIfNonExistent (SavePath (ResolveImageSaveOptions opts)) w)"
  using assms
  by (auto simp: SaveNotionImageToFilesystem_def derivedPath_def Let_def createPath_files
           split: sum.splits if_splits)

lemma Save_success_exists:
  assumes "SaveNotionImageToFilesystem lib address opts w = (Value p, w')"
  shows "derivedPath lib address opts = Some p \<and> files w' p \<noteq> None"
  using assms
  by (auto simp: SaveNotionImageToFilesystem_def derivedPath_def Let_def osCreate_def
           split: sum.splits if_splits option.splits)

text \<open>
  C9. When overwriting is not requested: if the local file derived from the address
  exists, \<open>SaveNotionImageToFilesystem\<close> returns its path and requests nothing over
  HTTP; and after a call that returned a path, a second call in the world the first one
  left returns the same path and requests nothing over HTTP.
\<close>

theorem SaveNotionImageToFilesystem_idempotent:
  assumes "\<not> overwriteRequested opts"
  shows "(derivedPath lib address opts = Some filePath \<and> files w filePath \<noteq> None \<longrightarrow>
            fst (SaveNotionImageToFilesystem lib address opts w) = Value filePath
          \<and> fetched (snd (SaveNotionImageToFilesystem lib address opts w)) = fetched w)
       \<and> (SaveNotionImageToFilesystem lib address opts w = (Value p, w') \<longrightarrow>
            fst (SaveNotionImageToFilesystem lib address opts w') = Value p
          \<and> fetched (snd (SaveNotionImageToFilesystem lib address opts w')) = fetched w')"
proof -
  have first: "fst (SaveNotionImageToFilesystem lib address opts w) = Value filePath
          \<and> fetched (snd (SaveNotionImageToFilesystem lib address opts w)) = fetched w"
    if "derivedPath lib address opts = Some filePath \<and> files w filePath \<noteq> None"
    using that by (simp add: Save_existing)
  have second: "fst (SaveNotionImageToFilesystem lib address opts w') = Value p
          \<and> fetched (snd (SaveNotionImageToFilesystem lib address opts w')) = fetched w'"
    if "SaveNotionImageToFilesystem lib address opts w = (Value p, w')"
    using Save_success_exists [OF that] by (simp add: Save_existing)
  from first second show ?thesis by blast
qed

theorem SaveNotionImageToFilesystem_idempotent_witness:
  "\<not> overwriteRequested []
   \<and> derivedPath lib0 imageAddress [] = Some ''images/abc.png''
   \<and> files savedWorld ''images/abc.png'' \<noteq> None
   \<and> fst (SaveNotionImageToFilesystem lib0 imageAddress [] savedWorld) = Value ''images/abc.png''
   \<and> fetched (snd (SaveNotionImageToFilesystem lib0 imageAddress [] savedWorld)) = []
   \<and> SaveNotionImageToFilesystem lib0 imageAddress [] emptyWorld
       = (Value ''images/abc.png'', firstSaveWorld)
   \<and> fst (SaveNotionImageToFilesystem lib0 imageAddress [] firstSaveWorld)
       = Value ''images/abc.png''
   \<and> fetched (snd (SaveNotionImageToFilesystem lib0 imageAddress [] firstSaveWorld))
       = [imageAddress]"
proof -
  have h: "\<not> overwriteRequested []"
    by (simp add: overwriteRequested_def)
  have d: "derivedPath lib0 imageAddress [] = Some ''images/abc.png''"
    by (simp add: derivedPath_def lib0_def Split_fixture ResolveImageSaveOptions_def)
  have f: "files savedWorld ''images/abc.png'' \<noteq> None"
    by (simp add: savedWorld_def)
  have s: "SaveNotionImageToFilesystem lib0 imageAddress [] emptyWorld
             = (Value ''images/abc.png'', firstSaveWorld)"
    by (simp add: SaveNotionImageToFilesystem_def ResolveImageSaveOptions_def lib0_def
        emptyWorld_def firstSaveWorld_def createPathIfNonExistent_def MkdirAll_def
        osCreate_def Split_fixture Let_def)
  have w: "fetched savedWorld = []" "fetched firstSaveWorld = [imageAddress]"
    by (simp_all add: savedWorld_def firstSaveWorld_def)
  from SaveNotionImageToFilesystem_idempotent [OF h, of lib0 imageAddress "''images/abc.png''"
      savedWorld "''images/abc.png''" firstSaveWorld]
    SaveNotionImageToFilesystem_idempotent [OF h, of lib0 imageAddress "''images/abc.png''"
      emptyWorld "''images/abc.png''" firstSaveWorld]
  show ?thesis using h d f s w by simp
qed

text \<open>
  C10, the code at the failing input: the caller sets the overwrite flag, the derived
  file exists, and \<open>SaveNotionImageToFilesystem\<close> returns the path with the world
  unchanged: nothing is requested over HTTP and the file keeps its old content.
  \<open>ResolveImageSaveOptions\<close> never copies the flag.
\<close>

theorem SaveNotionImageToFilesystem_overwrite_ignored:
  "overwriteRequested [overwriteOpts]
   \<and> OverwriteExisting (ResolveImageSaveOptions [overwriteOpts]) = False
   \<and> SaveNotionImageToFilesystem lib0 imageAddress [overwriteOpts] savedWorld
       = (Value ''images/abc.png'', savedWorld)
   \<and> files savedWorld ''images/abc.png'' = Some (FileNode ''old'')
   \<and> fetched savedWorld = []"
  by (simp add: SaveNotionImageToFilesystem_def ResolveImageSaveOptions_def overwriteOpts_def
      overwriteRequested_def savedWorld_def lib0_def imageAddress_def
      createPathIfNonExistent_def Split_fixture Let_def)

section \<open>The traversal\<close>

lemma para_sel [simp]:
  "GetType (para i ch s) = ''paragraph''" "GetHasChildren (para i ch s) = ch"
  "GetID (para i ch s) = i"
  by (simp_all add: para_def GetType_def GetHasChildren_def GetID_def)

lemma renderSwitch_para:
  "renderSwitch lib0 opts cfg pg (para i ch s) w =
     (Value (Some (RenderParagraph \<lparr>Text = s, BlockRef = para i ch s,
              Opts = map RenderSettings.truncate opts, Depth = depth cfg, PageRef = Some pg\<rparr>
              [Paragraph (Overrides cfg)])), cfg, w)"
  by (simp add: renderSwitch_def para_def GetType_def Let_def lib0_def RenderText_def plainRun_def)

lemma renderSwitch_depth:
  "depth (fst (snd (renderSwitch lib opts config pg b w))) = depth config"
  by (cases "Data b")
     (simp_all add: renderSwitch_def GetType_def Let_def split: res.split prod.split)

lemma renderSwitch_depth_result:
  "renderSwitch lib opts config pg b w = (r, config', w') \<Longrightarrow> depth config' = depth config"
  using renderSwitch_depth [of lib opts config pg b w] by simp

lemma blocks_loop_descend:
  assumes "renderSwitch lib opts config pg b (e_world e) = (Value (Some rend), config', w)"
      and "GetHasChildren b"
  shows "blocks_loop m lib cl opts pg config (b # bs) e =
           (case renderBlocks m lib cl (GetID b)
                   [childConfig (config'\<lparr>previousElementType := GetType b\<rparr>) b]
                   \<lparr>e_page = e_page e
                      @ AddSectionSeperation (previousElementType config') (GetType b) []
                      @ AddPadding \<lparr>Text = rend, BlockRef = b, Opts = [],
                                    Depth = depth config', PageRef = None\<rparr> [],
                    e_world = w\<rparr> of
              None \<Rightarrow> None
            | Some (Panic x, e2) \<Rightarrow> Some (Panic x, e2)
            | Some (Err err, e2) \<Rightarrow>
                blocks_loop m lib cl opts pg (config'\<lparr>previousElementType := GetType b\<rparr>) bs e2
            | Some (Value u, e2) \<Rightarrow>
                blocks_loop m lib cl opts pg (config'\<lparr>previousElementType := GetType b\<rparr>) bs e2)"
  using assms by (simp add: Let_def del: renderBlocks.simps)

text \<open>
  Fuel only bounds the nesting depth: a result obtained with some fuel is the result with
  more fuel.
\<close>

lemma blocks_loop_fuel:
  assumes step: "\<And>pageID opts e r. renderBlocks n lib cl pageID opts e = Some r
             \<Longrightarrow> renderBlocks (Suc n) lib cl pageID opts e = Some r"
  shows "blocks_loop n lib cl opts pg config bs e = Some r
         \<Longrightarrow> blocks_loop (Suc n) lib cl opts pg config bs e = Some r"
proof (induction bs arbitrary: config e)
  case Nil
  then show ?case by simp
next
  case (Cons b bs)
  obtain sw config' w where sw: "renderSwitch lib opts config pg b (e_world e) = (sw, config', w)"
    by (cases "renderSwitch lib opts config pg b (e_world e)") auto
  show ?case
  proof (cases sw)
    case (Panic x)
    with sw Cons.prems show ?thesis by simp
  next
    case (Err err)
    with sw Cons.prems show ?thesis by simp
  next
    case (Value v)
    show ?thesis
    proof (cases v)
      case None
      with sw Value Cons.prems Cons.IH show ?thesis by simp
    next
      case (Some rend)
      note sw' = sw [unfolded Value Some]
      show ?thesis
      proof (cases "GetHasChildren b")
        case False
        with sw' Cons.prems Cons.IH show ?thesis
          by (simp add: Let_def)
      next
        case True
        let ?c1 = "config'\<lparr>previousElementType := GetType b\<rparr>"
        let ?e1 = "\<lparr>e_page = e_page e
                      @ AddSectionSeperation (previousElementType config') (GetType b) []
                      @ AddPadding \<lparr>Text = rend, BlockRef = b, Opts = [],
                                    Depth = depth config', PageRef = None\<rparr> [],
                    e_world = w\<rparr>"
        note eqn = blocks_loop_descend [OF sw' True]
        from Cons.prems obtain rr e2 where
          rb: "renderBlocks n lib cl (GetID b) [childConfig ?c1 b] ?e1 = Some (rr, e2)"
          unfolding eqn [of n] by (auto split: option.splits)
        have rb': "renderBlocks (Suc n) lib cl (GetID b) [childConfig ?c1 b] ?e1 = Some (rr, e2)"
          using rb by (rule step)
        show ?thesis
        proof (cases rr)
          case (Panic x)
          with Cons.prems show ?thesis
            unfolding eqn [of n] eqn [of "Suc n"] rb rb' by auto
        next
          case (Err err)
          with Cons.prems have "blocks_loop n lib cl opts pg ?c1 bs e2 = Some r"
            unfolding eqn [of n] rb by simp
          then have "blocks_loop (Suc n) lib cl opts pg ?c1 bs e2 = Some r"
            by (rule Cons.IH)
          with Err show ?thesis
            unfolding eqn [of "Suc n"] rb' by simp
        next
          case (Value u)
          with Cons.prems have "blocks_loop n lib cl opts pg ?c1 bs e2 = Some r"
            unfolding eqn [of n] rb by simp
          then have "blocks_loop (Suc n) lib cl opts pg ?c1 bs e2 = Some r"
            by (rule Cons.IH)
          with Value show ?thesis
            unfolding eqn [of "Suc n"] rb' by simp
        qed
      qed
    qed
  qed
qed

lemma renderBlocks_fuel:
  "renderBlocks n lib cl pageID opts e = Some r
   \<Longrightarrow> renderBlocks (Suc n) lib cl pageID opts e = Some r"
proof (induction n arbitrary: pageID opts e r)
  case 0
  then show ?case by simp
next
  case (Suc n)
  have loop: "\<And>opts pg config bs e r.
      blocks_loop n lib cl opts pg config bs e = Some r
      \<Longrightarrow> blocks_loop (Suc n) lib cl opts pg config bs e = Some r"
    by (rule blocks_loop_fuel) (rule Suc.IH)
  show ?case
  proof (cases "PageGet cl pageID")
    case (Inl err)
    with Suc.prems show ?thesis by simp
  next
    case (Inr pg)
    show ?thesis
    proof (cases "GetChildren cl pageID \<lparr>StartCursor = '''', PageSize = 0\<rparr>")
      case (Inl err)
      with Inr Suc.prems show ?thesis by simp
    next
      case ch: (Inr blocks)
      from Suc.prems Inr ch
      have "blocks_loop n lib cl opts pg (resolveRenderConfig opts) (Results blocks) e = Some r"
        by simp
      then have "blocks_loop (Suc n) lib cl opts pg (resolveRenderConfig opts) (Results blocks) e
                   = Some r"
        by (rule loop)
      with Inr ch show ?thesis
        by (simp del: blocks_loop.simps)
    qed
  qed
qed

lemma blocks_loop_cong_client:
  assumes "\<And>pageID opts e.
             renderBlocks n lib cl' pageID opts e = renderBlocks n lib cl pageID opts e"
  shows "blocks_loop n lib cl' opts pg config bs e = blocks_loop n lib cl opts pg config bs e"
proof (induction bs arbitrary: config e)
  case Nil
  show ?case by simp
next
  case (Cons b bs)
  show ?case
    by (simp add: Cons.IH assms Let_def split: prod.split res.split option.split)
qed

lemma renderBlocks_cong_client:
  assumes "firstPagesAgree cl cl'"
  shows "renderBlocks n lib cl' pageID opts e = renderBlocks n lib cl pageID opts e"
proof (induction n arbitrary: pageID opts e)
  case 0
  show ?case by simp
next
  case (Suc n)
  have pg: "PageGet cl' pageID = PageGet cl pageID"
    using assms by (simp add: firstPagesAgree_def)
  have ch: "GetChildren cl' pageID \<lparr>StartCursor = '''', PageSize = 0\<rparr>
              = GetChildren cl pageID \<lparr>StartCursor = '''', PageSize = 0\<rparr>"
    using assms by (simp add: firstPagesAgree_def)
  have loop: "\<And>opts pg config bs e.
      blocks_loop n lib cl' opts pg config bs e = blocks_loop n lib cl opts pg config bs e"
    by (rule blocks_loop_cong_client) (rule Suc.IH)
  show ?case
    by (simp add: pg ch loop split: sum.split)
qed

text \<open>
  C1, the claim as stated fails: the source serves the children of \<open>p\<close> in two pagination
  pages, the first one announcing the second; \<open>renderBlocks\<close> returns with the block of
  the first page rendered and the block of the second page missing.
\<close>

theorem renderBlocks_second_page_counterexample:
  "GetChildren twoPageClient ''p'' \<lparr>StartCursor = '''', PageSize = 0\<rparr>
     = Inr \<lparr>Results = [para ''b1'' False ''a''], NextCursor = ''c1'', HasMore = True\<rparr>
   \<and> GetChildren twoPageClient ''p'' \<lparr>StartCursor = ''c1'', PageSize = 0\<rparr>
     = Inr \<lparr>Results = [para ''b2'' False ''b''], NextCursor = '''', HasMore = False\<rparr>
   \<and> renderBlocks (Suc 0) lib0 twoPageClient ''p'' [] e0
     = Some (Value (), \<lparr>e_page = ''\<newline>\<newline>a'', e_world = emptyWorld\<rparr>)"
  by (simp add: twoPageClient_def renderSwitch_para e0_def resolveRenderConfig_def
      zeroRenderOptions_def zeroOverrides_def RenderParagraph_def AddPadding_def
      AddSectionSeperation_def Let_def)

text \<open>
  C1, as amended. \<open>renderBlocks\<close> fetches the children of a container with one request,
  for the first pagination page, and its loop runs over the blocks of that page in
  source order; it follows no cursor: two sources that serve the same pages and the same
  first pagination pages give the same result, whatever they serve on later pages.
\<close>

theorem renderBlocks_first_page_only:
  assumes "firstPagesAgree cl cl'"
  shows "renderBlocks n lib cl' pageID opts e = renderBlocks n lib cl pageID opts e
       \<and> (\<forall>pg r. PageGet cl pageID = Inr pg
              \<and> GetChildren cl pageID \<lparr>StartCursor = '''', PageSize = 0\<rparr> = Inr r \<longrightarrow>
            renderBlocks (Suc n) lib cl pageID opts e
              = blocks_loop n lib cl opts pg (resolveRenderConfig opts) (Results r) e)"
proof -
  have "renderBlocks n lib cl' pageID opts e = renderBlocks n lib cl pageID opts e"
    using assms by (rule renderBlocks_cong_client)
  moreover have "renderBlocks (Suc n) lib cl pageID opts e
              = blocks_loop n lib cl opts pg (resolveRenderConfig opts) (Results r) e"
    if "PageGet cl pageID = Inr pg
          \<and> GetChildren cl pageID \<lparr>StartCursor = '''', PageSize = 0\<rparr> = Inr r" for pg r
    using that by simp
  ultimately show ?thesis by blast
qed

theorem renderBlocks_first_page_only_witness:
  "firstPagesAgree twoPageClient onePageClient
   \<and> renderBlocks (Suc 0) lib0 onePageClient ''p'' [] e0
       = renderBlocks (Suc 0) lib0 twoPageClient ''p'' [] e0
   \<and> renderBlocks (Suc 0) lib0 twoPageClient ''p'' [] e0
       = Some (Value (), \<lparr>e_page = ''\<newline>\<newline>a'', e_world = emptyWorld\<rparr>)"
proof -
  have a: "firstPagesAgree twoPageClient onePageClient"
    by (simp add: firstPagesAgree_def twoPageClient_def onePageClient_def)
  have r: "renderBlocks (Suc 0) lib0 twoPageClient ''p'' [] e0
             = Some (Value (), \<lparr>e_page = ''\<newline>\<newline>a'', e_world = emptyWorld\<rparr>)"
    by (simp add: twoPageClient_def renderSwitch_para e0_def resolveRenderConfig_def
        zeroRenderOptions_def zeroOverrides_def RenderParagraph_def AddPadding_def
        AddSectionSeperation_def Let_def)
  from renderBlocks_first_page_only [OF a, of "Suc 0" lib0 "''p''" "[]" e0, THEN conjunct1]
  show ?thesis using a r by simp
qed

text \<open>
  C2, the code at the failing input: page \<open>p\<close> has one paragraph that reports children,
  and fetching those children fails. The recursive call of \<open>renderBlocks\<close> returns the
  error, its caller drops it, and \<open>Render\<close> returns the buffer with no error.
\<close>

theorem Render_drops_child_fetch_failure:
  "GetChildren failingChildClient ''b'' \<lparr>StartCursor = '''', PageSize = 0\<rparr> = Inl ''fetch failed''
   \<and> renderBlocks (Suc 0) lib0 failingChildClient ''b''
        [childConfig (headerFooterOpts\<lparr>previousElementType := ''paragraph''\<rparr>)
           (para ''b'' True ''x'')]
        \<lparr>e_page = ''# T\<newline>\<newline>x'', e_world = emptyWorld\<rparr>
     = Some (Err (FailedRetrieveData (ClientError ''fetch failed'')),
             \<lparr>e_page = ''# T\<newline>\<newline>x'', e_world = emptyWorld\<rparr>)
   \<and> Render (Suc (Suc 0)) lib0 failingChildClient ''p'' [headerFooterOpts] e0
     = Some (Value (), \<lparr>e_page = ''# T\<newline>\<newline>x'', e_world = emptyWorld\<rparr>)"
  by (simp add: failingChildClient_def renderSwitch_para e0_def resolveRenderConfig_def
      headerFooterOpts_def Render_def RenderPageHeader_def RenderPageFooter_def
      zeroRenderOptions_def zeroOverrides_def RenderParagraph_def AddPadding_def
      AddSectionSeperation_def Let_def childConfig_def)

text \<open>
  C4. When the loop of \<open>renderBlocks\<close> renders a block \<open>b\<close> that reports children under
  the configuration \<open>config\<close>, it calls \<open>renderBlocks\<close> on the id of \<open>b\<close> with one
  configuration, whose depth is the depth of \<open>config\<close> plus one, or the depth of
  \<open>config\<close> itself when \<open>b\<close> is a table.
\<close>

theorem renderBlocks_child_depth:
  assumes "renderSwitch lib opts config pg b (e_world e) = (Value (Some rend), config', w)"
      and "GetHasChildren b"
  shows "blocks_loop n lib cl opts pg config (b # bs) e =
           (case renderBlocks n lib cl (GetID b)
                   [childConfig (config'\<lparr>previousElementType := GetType b\<rparr>) b]
                   \<lparr>e_page = e_page e
                      @ AddSectionSeperation (previousElementType config') (GetType b) []
                      @ AddPadding \<lparr>Text = rend, BlockRef = b, Opts = [],
                                    Depth = depth config', PageRef = None\<rparr> [],
                    e_world = w\<rparr> of
              None \<Rightarrow> None
            | Some (Panic x, e2) \<Rightarrow> Some (Panic x, e2)
            | Some (Err err, e2) \<Rightarrow>
                blocks_loop n lib cl opts pg (config'\<lparr>previousElementType := GetType b\<rparr>) bs e2
            | Some (Value u, e2) \<Rightarrow>
                blocks_loop n lib cl opts pg (config'\<lparr>previousElementType := GetType b\<rparr>) bs e2)
       \<and> depth (childConfig (config'\<lparr>previousElementType := GetType b\<rparr>) b)
           = (if GetType b = ''table'' then depth config else depth config + 1)"
proof -
  have d: "depth config' = depth config"
    using assms(1) by (rule renderSwitch_depth_result)
  note call = blocks_loop_descend [OF assms, of n cl bs]
  have "depth (childConfig (config'\<lparr>previousElementType := GetType b\<rparr>) b)
           = (if GetType b = ''table'' then depth config else depth config + 1)"
    using d by (simp add: childConfig_def)
  with call show ?thesis by blast
qed

theorem renderBlocks_child_depth_witness:
  "renderSwitch lib0 [] zeroRenderOptions \<lparr>Properties = []\<rparr> (para ''b'' True ''x'') (e_world e0)
     = (Value (Some ''x''), zeroRenderOptions, emptyWorld)
   \<and> GetHasChildren (para ''b'' True ''x'')
   \<and> depth zeroRenderOptions = 0
   \<and> depth (childConfig (zeroRenderOptions\<lparr>previousElementType := ''paragraph''\<rparr>)
              (para ''b'' True ''x'')) = 1
   \<and> GetHasChildren tableWithRows
   \<and> depth (childConfig
              (zeroRenderOptions\<lparr>tableState :=
                  \<lparr>tableBlock = Some \<lparr>HasRowHeader = True, HasColumnHeader = False\<rparr>,
                   rowQuantity = 0, currentRow = 0\<rparr>,
                 previousElementType := ''table''\<rparr>)
              tableWithRows) = 0"
proof -
  have p1: "renderSwitch lib0 [] zeroRenderOptions \<lparr>Properties = []\<rparr> (para ''b'' True ''x'')
              (e_world e0) = (Value (Some ''x''), zeroRenderOptions, emptyWorld)"
    by (simp add: renderSwitch_para RenderParagraph_def zeroRenderOptions_def
        zeroOverrides_def e0_def)
  have p2: "GetHasChildren (para ''b'' True ''x'')"
    by simp
  have t1: "renderSwitch lib0 [] zeroRenderOptions \<lparr>Properties = []\<rparr> tableWithRows (e_world e0)
              = (Value (Some ''''),
                 zeroRenderOptions\<lparr>tableState :=
                   \<lparr>tableBlock = Some \<lparr>HasRowHeader = True, HasColumnHeader = False\<rparr>,
                    rowQuantity = 0, currentRow = 0\<rparr>\<rparr>,
                 emptyWorld)"
    by (simp add: renderSwitch_def tableWithRows_def GetType_def Let_def zeroRenderOptions_def
        zeroTableState_def e0_def)
  have t2: "GetHasChildren tableWithRows"
    by (simp add: tableWithRows_def GetHasChildren_def)
  have g: "GetType tableWithRows = ''table''"
    by (simp add: tableWithRows_def GetType_def)
  have z: "depth zeroRenderOptions = 0"
    by (simp add: zeroRenderOptions_def)
  from renderBlocks_child_depth [OF p1 p2, THEN conjunct2]
       renderBlocks_child_depth [OF t1 t2, THEN conjunct2]
  show ?thesis using p1 p2 t2 g z by simp
qed

end
